theory Spec2Isabelle
  imports Complex_Main
begin

section \<open>Amounts, rounding and strings\<close>

text \<open>
  Python floats are modelled as exact rationals: sums, differences, products and
  quotients are exact, and \<open>round(x, 2)\<close> is rounding to the nearest multiple of
  \<open>1/100\<close> with ties going to the even neighbour, which is what Python 3 does on the
  value it is given.
\<close>

type_synonym money = rat

definition py_round :: "rat \<Rightarrow> int" where
  "py_round x =
     (let f = \<lfloor>x\<rfloor>; d = x - of_int f
      in if d < 1 / 2 then f
         else if 1 / 2 < d then f + 1
         else if even f then f else f + 1)"

definition round2 :: "money \<Rightarrow> money" where
  "round2 x = of_int (py_round (x * 100)) / 100"

text \<open>\<open>str.lower()\<close> on ASCII text, and the substring test \<open>k in s\<close>.\<close>

definition lower_char :: "char \<Rightarrow> char" where
  "lower_char c =
     (case map_of (zip ''ABCDEFGHIJKLMNOPQRSTUVWXYZ'' ''abcdefghijklmnopqrstuvwxyz'') c of
        Some d \<Rightarrow> d
      | None \<Rightarrow> c)"

definition py_lower :: "string \<Rightarrow> string" where
  "py_lower s = map lower_char s"

fun startswith :: "string \<Rightarrow> string \<Rightarrow> bool" where
  "startswith s [] = True"
| "startswith [] (k # ks) = False"
| "startswith (c # s) (k # ks) = (c = k \<and> startswith s ks)"

fun py_in :: "string \<Rightarrow> string \<Rightarrow> bool" where
  "py_in k [] = (k = [])"
| "py_in k (c # s) = (startswith (c # s) k \<or> py_in k s)"

text \<open>\<open>d.get(key, default)\<close> on an option-valued field.\<close>

definition dflt :: "'a option \<Rightarrow> 'a \<Rightarrow> 'a" where
  "dflt v d = (case v of None \<Rightarrow> d | Some x \<Rightarrow> x)"


section \<open>Policy configuration (\<open>policy_terms.json\<close>)\<close>

text \<open>
  The policy document is read with \<open>.get(key, default)\<close> throughout, so every key is
  optional. A block that is absent behaves as a block whose keys are all absent.
\<close>

record consultation_fees =
  cf_sub_limit :: "money option"
  cf_copay_percentage :: "rat option"
  cf_network_discount :: "rat option"

record diagnostic_tests =
  dt_sub_limit :: "money option"
  dt_pre_authorization_required :: "bool option"
  dt_covered_tests :: "string list option"

record pharmacy =
  ph_sub_limit :: "money option"
  ph_generic_drugs_mandatory :: "bool option"
  ph_branded_drugs_copay :: "rat option"

record dental =
  de_sub_limit :: "money option"
  de_routine_checkup_limit :: "money option"
  de_procedures_covered :: "string list option"
  de_cosmetic_procedures :: "bool option"

record vision =
  vi_sub_limit :: "money option"
  vi_eye_test_covered :: "bool option"
  vi_glasses_contact_lenses :: "bool option"
  vi_lasik_surgery :: "bool option"

record alternative_medicine =
  am_sub_limit :: "money option"
  am_covered_treatments :: "string list option"
  am_therapy_sessions_limit :: "rat option"

record coverage_details =
  cov_annual_limit :: "money option"
  cov_per_claim_limit :: "money option"
  cov_consultation_fees :: consultation_fees
  cov_diagnostic_tests :: diagnostic_tests
  cov_pharmacy :: pharmacy
  cov_dental :: dental
  cov_vision :: vision
  cov_alternative_medicine :: alternative_medicine

record waiting_periods =
  wp_initial_waiting :: "int option"
  wp_pre_existing_diseases :: "int option"
  wp_maternity :: "int option"
  wp_specific_ailments :: "(string \<times> int) list"

record policy =
  pol_coverage_details :: coverage_details
  pol_waiting_periods :: waiting_periods
  pol_exclusions :: "string list"
  pol_network_hospitals :: "string list"
  pol_minimum_claim_amount :: "money option"

definition get_annual_limit :: "policy \<Rightarrow> money" where
  "get_annual_limit P = dflt (cov_annual_limit (pol_coverage_details P)) 50000"

definition get_per_claim_limit :: "policy \<Rightarrow> money" where
  "get_per_claim_limit P = dflt (cov_per_claim_limit (pol_coverage_details P)) 5000"

definition get_minimum_claim_amount :: "policy \<Rightarrow> money" where
  "get_minimum_claim_amount P = dflt (pol_minimum_claim_amount P) 500"

text \<open>
  The values stored in the sub-limit table are numbers, booleans, string lists and,
  when the whole table is returned, nested tables.
\<close>

datatype jval = JNum rat | JBool bool | JStrs "string list" | JDict "(string \<times> jval) list"

definition sub_limits_table :: "policy \<Rightarrow> (string \<times> (string \<times> jval) list) list" where
  "sub_limits_table P =
     (let coverage = pol_coverage_details P
      in [(''consultation'',
            [(''limit'', JNum (dflt (cf_sub_limit (cov_consultation_fees coverage)) 2000)),
             (''copay_percentage'', JNum (dflt (cf_copay_percentage (cov_consultation_fees coverage)) 10)),
             (''network_discount'', JNum (dflt (cf_network_discount (cov_consultation_fees coverage)) 20))]),
          (''diagnostic'',
            [(''limit'', JNum (dflt (dt_sub_limit (cov_diagnostic_tests coverage)) 10000)),
             (''pre_auth_required'', JBool (dflt (dt_pre_authorization_required (cov_diagnostic_tests coverage)) False)),
             (''covered_tests'', JStrs (dflt (dt_covered_tests (cov_diagnostic_tests coverage)) []))]),
          (''pharmacy'',
            [(''limit'', JNum (dflt (ph_sub_limit (cov_pharmacy coverage)) 15000)),
             (''generic_mandatory'', JBool (dflt (ph_generic_drugs_mandatory (cov_pharmacy coverage)) True)),
             (''branded_copay'', JNum (dflt (ph_branded_drugs_copay (cov_pharmacy coverage)) 30))]),
          (''dental'',
            [(''limit'', JNum (dflt (de_sub_limit (cov_dental coverage)) 10000)),
             (''routine_limit'', JNum (dflt (de_routine_checkup_limit (cov_dental coverage)) 2000)),
             (''procedures_covered'', JStrs (dflt (de_procedures_covered (cov_dental coverage)) [])),
             (''cosmetic_covered'', JBool (dflt (de_cosmetic_procedures (cov_dental coverage)) False))]),
          (''vision'',
            [(''limit'', JNum (dflt (vi_sub_limit (cov_vision coverage)) 5000)),
             (''eye_test'', JBool (dflt (vi_eye_test_covered (cov_vision coverage)) True)),
             (''glasses_covered'', JBool (dflt (vi_glasses_contact_lenses (cov_vision coverage)) True)),
             (''lasik_covered'', JBool (dflt (vi_lasik_surgery (cov_vision coverage)) False))]),
          (''alternative_medicine'',
            [(''limit'', JNum (dflt (am_sub_limit (cov_alternative_medicine coverage)) 8000)),
             (''covered_treatments'', JStrs (dflt (am_covered_treatments (cov_alternative_medicine coverage)) [])),
             (''sessions_limit'', JNum (dflt (am_therapy_sessions_limit (cov_alternative_medicine coverage)) 20))])])"

text \<open>
  \<open>get_sub_limits(category)\<close>: the block of a known category, and the whole table for
  \<open>None\<close>, the empty string and any name that is not a key of the table.
\<close>

definition get_sub_limits :: "policy \<Rightarrow> string option \<Rightarrow> (string \<times> jval) list" where
  "get_sub_limits P category =
     (let sub_limits = sub_limits_table P;
          whole = map (\<lambda>(k, d). (k, JDict d)) sub_limits
      in case category of
           None \<Rightarrow> whole
         | Some c \<Rightarrow>
             (if c \<noteq> [] then (case map_of sub_limits c of Some d \<Rightarrow> d | None \<Rightarrow> whole)
              else whole))"

text \<open>
  \<open>d.get(key, default)\<close> where the caller goes on to compute with the result. Under the
  keys read this way (\<open>limit\<close>, \<open>copay_percentage\<close>, \<open>network_discount\<close>) the table holds
  numbers only.
\<close>

definition jget_num :: "(string \<times> jval) list \<Rightarrow> string \<Rightarrow> rat \<Rightarrow> rat" where
  "jget_num d k v = (case map_of d k of Some (JNum x) \<Rightarrow> x | _ \<Rightarrow> v)"


definition is_network_hospital :: "policy \<Rightarrow> string option \<Rightarrow> bool" where
  "is_network_hospital P hospital_name =
     (case hospital_name of
        None \<Rightarrow> False
      | Some h \<Rightarrow>
          (if h = [] then False
           else (let hospital_lower = py_lower h
                 in list_ex (\<lambda>network_hospital.
                      py_in (py_lower network_hospital) hospital_lower \<or>
                      py_in hospital_lower (py_lower network_hospital))
                    (pol_network_hospitals P))))"


section \<open>Co-pay and limits\<close>

record copay_info =
  ci_copay_amount :: money
  ci_copay_percentage :: rat
  ci_network_discount :: money
  ci_network_discount_percentage :: rat
  ci_payable_amount :: money

definition calculate_copay :: "policy \<Rightarrow> money \<Rightarrow> string \<Rightarrow> bool \<Rightarrow> copay_info" where
  "calculate_copay P amount category is_network =
     (let sub_limits = get_sub_limits P (Some category);
          copay_percentage = jget_num sub_limits ''copay_percentage'' 10;
          network_discount_percentage =
            (if is_network then jget_num sub_limits ''network_discount'' 20 else 0);
          copay_amount = amount * (copay_percentage / 100);
          network_discount = amount * (network_discount_percentage / 100)
      in \<lparr>ci_copay_amount = round2 copay_amount,
          ci_copay_percentage = copay_percentage,
          ci_network_discount = round2 network_discount,
          ci_network_discount_percentage = network_discount_percentage,
          ci_payable_amount = round2 (amount - copay_amount - network_discount)\<rparr>)"

text \<open>
  The dictionary returned by \<open>calculate_limits\<close>. The early return for a claim under the
  minimum amount carries six keys only; every other return carries the keys of
  \<open>limit_details\<close> as well.
\<close>

record limit_details =
  ld_eligible_amount :: money
  ld_copay_amount :: money
  ld_copay_percentage :: rat
  ld_network_discount :: money
  ld_excluded_amount :: money
  ld_per_claim_limit :: money
  ld_annual_limit :: money
  ld_applicable_sub_limit :: money
  ld_remaining_annual_limit :: money
  ld_per_claim_exceeded :: bool
  ld_annual_limit_exceeded :: bool
  ld_sub_limit_exceeded :: bool
  ld_is_network_hospital :: bool

record limit_result =
  lr_within_limits :: bool
  lr_claim_amount :: money
  lr_approved_amount :: money
  lr_rejection_reasons :: "string list"
  lr_confidence_score :: rat
  lr_details :: "limit_details option"

definition calculate_limits ::
  "policy \<Rightarrow> money \<Rightarrow> string option \<Rightarrow> string option \<Rightarrow> money \<Rightarrow> money \<Rightarrow> money option
   \<Rightarrow> limit_result" where
  "calculate_limits P claim_amount category hospital_name excluded_amount previous_claims_ytd
       sub_limit_arg =
     (let per_claim_limit = get_per_claim_limit P;
          annual_limit = get_annual_limit P;
          min_claim_amount = get_minimum_claim_amount P
      in if claim_amount < min_claim_amount then
           \<lparr>lr_within_limits = False, lr_claim_amount = claim_amount, lr_approved_amount = 0,
            lr_rejection_reasons = [''BELOW_MIN_AMOUNT''], lr_confidence_score = 1,
            lr_details = None\<rparr>
         else
           (let eligible_amount = claim_amount - excluded_amount;
                sub_limit =
                  (case sub_limit_arg of
                     Some s \<Rightarrow> s
                   | None \<Rightarrow>
                       (case category of
                          None \<Rightarrow> per_claim_limit
                        | Some c \<Rightarrow>
                            (if c \<noteq> []
                             then jget_num (get_sub_limits P (Some c)) ''limit'' per_claim_limit
                             else per_claim_limit)));
                per_claim_exceeded = (eligible_amount > per_claim_limit);
                remaining_annual = annual_limit - previous_claims_ytd;
                annual_limit_exceeded = (eligible_amount > remaining_annual);
                sub_limit_exceeded = (eligible_amount > sub_limit);
                rejection_reasons =
                  (if per_claim_exceeded then [''PER_CLAIM_EXCEEDED''] else []) @
                  (if annual_limit_exceeded then [''ANNUAL_LIMIT_EXCEEDED''] else []);
                approved_amount =
                  max (min (min (min eligible_amount per_claim_limit) remaining_annual) sub_limit) 0;
                is_network =
                  (case hospital_name of
                     None \<Rightarrow> False
                   | Some h \<Rightarrow> if h \<noteq> [] then is_network_hospital P hospital_name else False);
                copay_info =
                  calculate_copay P approved_amount
                    (case category of None \<Rightarrow> ''consultation''
                     | Some c \<Rightarrow> if c \<noteq> [] then c else ''consultation'')
                    is_network;
                copay_amount = ci_copay_amount copay_info;
                network_discount = ci_network_discount copay_info;
                final_approved = approved_amount - copay_amount
            in \<lparr>lr_within_limits = (rejection_reasons = []),
                lr_claim_amount = claim_amount,
                lr_approved_amount = round2 final_approved,
                lr_rejection_reasons = rejection_reasons,
                lr_confidence_score = 98 / 100,
                lr_details = Some
                  \<lparr>ld_eligible_amount = eligible_amount,
                   ld_copay_amount = round2 copay_amount,
                   ld_copay_percentage = ci_copay_percentage copay_info,
                   ld_network_discount = round2 network_discount,
                   ld_excluded_amount = excluded_amount,
                   ld_per_claim_limit = per_claim_limit,
                   ld_annual_limit = annual_limit,
                   ld_applicable_sub_limit = sub_limit,
                   ld_remaining_annual_limit = round2 remaining_annual,
                   ld_per_claim_exceeded = per_claim_exceeded,
                   ld_annual_limit_exceeded = annual_limit_exceeded,
                   ld_sub_limit_exceeded = sub_limit_exceeded,
                   ld_is_network_hospital = is_network\<rparr>\<rparr>))"


section \<open>Dates\<close>

text \<open>
  \<open>datetime.strptime(s, "%Y-%m-%d")\<close> on ASCII text, the proleptic Gregorian ordinal of a
  date (day 1 is 0001-01-01, a Monday), and \<open>date.weekday()\<close> (Monday is 0).
\<close>

definition is_digit :: "char \<Rightarrow> bool" where
  "is_digit c = (c \<in> set ''0123456789'')"

definition digit_val :: "char \<Rightarrow> int" where
  "digit_val c =
     (case map_of (zip ''0123456789'' [0, 1, 2, 3, 4, 5, 6, 7, 8, 9]) c of
        Some v \<Rightarrow> v
      | None \<Rightarrow> 0)"

definition int_of_digits :: "string \<Rightarrow> int" where
  "int_of_digits s = foldl (\<lambda>acc c. acc * 10 + digit_val c) 0 s"

fun split_on :: "char \<Rightarrow> string \<Rightarrow> string list" where
  "split_on sep [] = [[]]"
| "split_on sep (c # s) =
     (if c = sep then [] # split_on sep s
      else (case split_on sep s of
              [] \<Rightarrow> [[c]]
            | p # ps \<Rightarrow> (c # p) # ps))"

definition is_leap :: "int \<Rightarrow> bool" where
  "is_leap y = (y mod 4 = 0 \<and> (y mod 100 \<noteq> 0 \<or> y mod 400 = 0))"

definition days_in_month :: "int \<Rightarrow> int \<Rightarrow> int" where
  "days_in_month y m =
     (if m = 2 then (if is_leap y then 29 else 28)
      else if m = 4 \<or> m = 6 \<or> m = 9 \<or> m = 11 then 30 else 31)"

definition days_before_year :: "int \<Rightarrow> int" where
  "days_before_year y = (y - 1) * 365 + (y - 1) div 4 - (y - 1) div 100 + (y - 1) div 400"

definition days_before_month :: "int \<Rightarrow> int \<Rightarrow> int" where
  "days_before_month y m = sum_list (map (days_in_month y) [1..m - 1])"

type_synonym date = "int \<times> int \<times> int"

definition ordinal :: "date \<Rightarrow> int" where
  "ordinal dt = (case dt of (y, m, d) \<Rightarrow> days_before_year y + days_before_month y m + d)"

definition weekday :: "date \<Rightarrow> int" where
  "weekday dt = (ordinal dt + 6) mod 7"

definition month_field_ok :: "string \<Rightarrow> bool" where
  "month_field_ok ms =
     (list_all is_digit ms \<and>
      ((length ms = 2 \<and> 1 \<le> int_of_digits ms \<and> int_of_digits ms \<le> 12) \<or>
       (length ms = 1 \<and> 1 \<le> int_of_digits ms)))"

definition day_field_ok :: "string \<Rightarrow> bool" where
  "day_field_ok ds =
     ((list_all is_digit ds \<and>
       ((length ds = 2 \<and> 1 \<le> int_of_digits ds \<and> int_of_digits ds \<le> 31) \<or>
        (length ds = 1 \<and> 1 \<le> int_of_digits ds))) \<or>
      (case ds of [sp, c] \<Rightarrow> sp = CHR '' '' \<and> is_digit c \<and> 1 \<le> digit_val c | _ \<Rightarrow> False))"

text \<open>\<open>None\<close> stands for the \<open>ValueError\<close> that \<open>strptime\<close> raises.\<close>

definition strptime :: "string \<Rightarrow> date option" where
  "strptime s =
     (case split_on CHR ''-'' s of
        [ys, ms, ds] \<Rightarrow>
          (if length ys = 4 \<and> list_all is_digit ys \<and> month_field_ok ms \<and> day_field_ok ds then
             (let y = int_of_digits ys; m = int_of_digits ms;
                  d = int_of_digits (filter is_digit ds)
              in if 1 \<le> y \<and> d \<le> days_in_month y m then Some (y, m, d) else None)
           else None)
      | _ \<Rightarrow> None)"


section \<open>Claim submission\<close>

record prescription =
  rx_doctor_reg :: "string option"
  rx_diagnosis :: "string option"
  rx_medicines_prescribed :: "string list"
  rx_tests_prescribed :: "string list"
  rx_procedures :: "string list"
  rx_treatment :: "string option"

text \<open>
  A document that is missing or an empty object is \<open>None\<close> (prescription) or \<open>[]\<close> (bill);
  the bill is the list of its \<open>(key, amount)\<close> entries.
\<close>

record documents =
  doc_prescription :: "prescription option"
  doc_bill :: "(string \<times> money) list"

record claim_data =
  cd_claim_id :: "string option"
  cd_member_id :: string
  cd_member_name :: string
  cd_treatment_date :: string
  cd_claim_amount :: money
  cd_hospital :: "string option"
  cd_cashless_request :: bool
  cd_category :: "string option"
  cd_documents :: documents
  cd_member_join_date :: "string option"
  cd_previous_claims_same_day :: int
  cd_previous_claims_ytd :: money

definition bill_get :: "(string \<times> money) list \<Rightarrow> string \<Rightarrow> money" where
  "bill_get bill k = dflt (map_of bill k) 0"


section \<open>Fraud detection\<close>

definition is_space :: "char \<Rightarrow> bool" where
  "is_space c =
     (c \<in> set [CHR '' '', CHR 0x09, CHR 0x0A, CHR 0x0B, CHR 0x0C, CHR 0x0D,
               CHR 0x1C, CHR 0x1D, CHR 0x1E, CHR 0x1F])"

definition py_strip :: "string \<Rightarrow> string" where
  "py_strip s = rev (dropWhile is_space (rev (dropWhile is_space s)))"

definition upper_char :: "char \<Rightarrow> char" where
  "upper_char c =
     (case map_of (zip ''abcdefghijklmnopqrstuvwxyz'' ''ABCDEFGHIJKLMNOPQRSTUVWXYZ'') c of
        Some d \<Rightarrow> d
      | None \<Rightarrow> c)"

definition py_upper :: "string \<Rightarrow> string" where
  "py_upper s = map upper_char s"

definition is_upper :: "char \<Rightarrow> bool" where
  "is_upper c = (c \<in> set ''ABCDEFGHIJKLMNOPQRSTUVWXYZ'')"

definition state_codes :: "string list" where
  "state_codes =
     [''AP'', ''AR'', ''AS'', ''BR'', ''CG'', ''GA'', ''GJ'', ''HR'', ''HP'', ''JH'', ''JK'',
      ''KA'', ''KL'', ''MP'', ''MH'', ''MN'', ''ML'', ''MZ'', ''NL'', ''OD'', ''PB'', ''RJ'',
      ''SK'', ''TN'', ''TS'', ''TR'', ''UP'', ''UK'', ''WB'', ''AN'', ''CH'', ''DN'', ''DD'',
      ''DL'', ''LD'', ''PY'']"

definition letters2 :: "string \<Rightarrow> bool" where
  "letters2 s = (length s = 2 \<and> list_all is_upper s)"

definition digits_between :: "nat \<Rightarrow> nat \<Rightarrow> string \<Rightarrow> bool" where
  "digits_between lo hi s = (lo \<le> length s \<and> length s \<le> hi \<and> list_all is_digit s)"

text \<open>
  \<open>validate_doctor_registration\<close>, first component of the returned pair. The four
  patterns are tried in the source's order; a string has the shape of at most one of
  them. The current year is read from the clock.
\<close>

definition validate_doctor_registration :: "int \<Rightarrow> string option \<Rightarrow> bool" where
  "validate_doctor_registration current_year reg_number =
     (case reg_number of
        None \<Rightarrow> False
      | Some r \<Rightarrow>
          (if r = [] then False
           else (let year_ok = (\<lambda>ys. \<not> (int_of_digits ys < 1950 \<or> int_of_digits ys > current_year))
                 in case split_on CHR ''/'' (py_upper (py_strip r)) of
                      [st, num, ys] \<Rightarrow>
                        (if letters2 st \<and> digits_between 4 6 num \<and> digits_between 4 4 ys then
                           (if st \<notin> set state_codes then False else year_ok ys)
                         else False)
                    | [a, b, num, ys] \<Rightarrow>
                        (if a = ''AYUR'' \<and> letters2 b \<and> digits_between 3 5 num \<and> digits_between 4 4 ys
                         then year_ok ys
                         else if a = ''HOM'' \<and> letters2 b \<and> digits_between 3 5 num \<and> digits_between 4 4 ys
                         then year_ok ys
                         else if letters2 a \<and> b = ''D'' \<and> digits_between 3 5 num \<and> digits_between 4 4 ys
                         then year_ok ys
                         else False)
                    | _ \<Rightarrow> False)))"

record fraud_result =
  fr_is_suspicious :: bool
  fr_fraud_flags :: "string list"
  fr_risk_score :: rat
  fr_recommend_manual_review :: bool

text \<open>The running pair \<open>(flags, fr_risk_score)\<close> and one \<open>flags.append(..); fr_risk_score += ..\<close>.\<close>

definition raise_flag :: "string \<Rightarrow> rat \<Rightarrow> string list \<times> rat \<Rightarrow> string list \<times> rat" where
  "raise_flag name w st = (fst st @ [name], snd st + w)"

definition is_multiple_of_500 :: "money \<Rightarrow> bool" where
  "is_multiple_of_500 a = (of_int \<lfloor>a / 500\<rfloor> * 500 = a)"

definition emergency_keywords :: "string list" where
  "emergency_keywords = [''emergency'', ''accident'', ''acute'', ''severe'', ''critical'']"

text \<open>Check 1: multiple claims on the same day.\<close>

definition check_same_day :: "int \<Rightarrow> string list \<times> rat \<Rightarrow> string list \<times> rat" where
  "check_same_day same_day st =
     (if same_day \<ge> 3 then raise_flag ''Multiple claims on same day (3+)'' (3 / 10) st
      else if same_day \<ge> 2 then raise_flag ''Multiple claims on same day'' (15 / 100) st
      else st)"

text \<open>Check 2: high utilization rate.\<close>

definition check_utilization ::
  "money \<Rightarrow> money \<Rightarrow> money \<Rightarrow> string list \<times> rat \<Rightarrow> string list \<times> rat" where
  "check_utilization ytd amount annual st =
     (let utilization_rate = (if annual > 0 then (ytd + amount) / annual else 0)
      in if utilization_rate > 9 / 10
         then raise_flag ''Near annual limit exhaustion'' (1 / 10) st else st)"

text \<open>Check 3: a single claim close to the per-claim limit, which is fixed at 5000 here.\<close>

definition check_high_amount :: "money \<Rightarrow> string list \<times> rat \<Rightarrow> string list \<times> rat" where
  "check_high_amount amount st =
     (let per_claim = 5000
      in if amount > per_claim * (95 / 100)
         then raise_flag ''Claim amount very close to per-claim limit'' (1 / 10) st else st)"

text \<open>Check 4: prescription data.\<close>

definition check_prescription ::
  "int \<Rightarrow> prescription option \<Rightarrow> string list \<times> rat \<Rightarrow> string list \<times> rat" where
  "check_prescription current_year presc st =
     (case presc of
        None \<Rightarrow> st
      | Some p \<Rightarrow>
          (let s = (if \<not> validate_doctor_registration current_year (Some (dflt (rx_doctor_reg p) []))
                    then raise_flag ''Invalid or suspicious doctor registration'' (25 / 100) st
                    else st)
           in if length (rx_medicines_prescribed p) > 10
              then raise_flag ''Unusually high number of medicines prescribed'' (1 / 10) s
              else s))"

text \<open>Check 5: bill anomalies.\<close>

definition check_bill :: "(string \<times> money) list \<Rightarrow> string list \<times> rat \<Rightarrow> string list \<times> rat" where
  "check_bill bill st =
     (if bill \<noteq> [] then
        (let amounts = [bill_get bill ''consultation_fee'', bill_get bill ''medicines'',
                        bill_get bill ''diagnostic_tests''];
             round_amounts = length (filter (\<lambda>a. a > 0 \<and> is_multiple_of_500 a) amounts)
         in if round_amounts \<ge> 2
            then raise_flag ''Multiple round number amounts in bill'' (5 / 100) st else st)
      else st)"

text \<open>
  Check 6: weekend treatment for a non-emergency. A treatment date that does not parse
  raises \<open>ValueError\<close>, which the source swallows.
\<close>

definition check_weekend ::
  "string \<Rightarrow> prescription option \<Rightarrow> string list \<times> rat \<Rightarrow> string list \<times> rat" where
  "check_weekend tdate presc st =
     (case strptime tdate of
        None \<Rightarrow> st
      | Some dt \<Rightarrow>
          (if weekday dt \<ge> 5 then
             (let diag = (case presc of
                            None \<Rightarrow> []
                          | Some p \<Rightarrow> py_lower (dflt (rx_diagnosis p) []))
              in if \<not> list_ex (\<lambda>kw. py_in kw diag) emergency_keywords
                 then raise_flag ''Non-emergency treatment on weekend'' (5 / 100) st
                 else st)
           else st))"

definition fraud_checks ::
  "int \<Rightarrow> claim_data \<Rightarrow> int \<Rightarrow> money \<Rightarrow> money \<Rightarrow> string list \<times> rat" where
  "fraud_checks current_year cd same_day ytd annual =
     (let amount = cd_claim_amount cd;
          docs = cd_documents cd;
          st1 = check_same_day same_day ([], 0);
          st2 = check_utilization ytd amount annual st1;
          st3 = check_high_amount amount st2;
          st4 = check_prescription current_year (doc_prescription docs) st3;
          st5 = check_bill (doc_bill docs) st4;
          st6 = check_weekend (cd_treatment_date cd) (doc_prescription docs) st5
      in st6)"

definition check_fraud_indicators ::
  "int \<Rightarrow> claim_data \<Rightarrow> int \<Rightarrow> money \<Rightarrow> money \<Rightarrow> fraud_result" where
  "check_fraud_indicators current_year cd same_day ytd annual =
     (let st = fraud_checks current_year cd same_day ytd annual;
          flags = fst st;
          score = snd st;
          recommend = (score \<ge> 35 / 100 \<or> length flags \<ge> 3);
          capped = min score 1
      in \<lparr>fr_is_suspicious = (capped \<ge> 35 / 100),
          fr_fraud_flags = flags,
          fr_risk_score = round2 capped,
          fr_recommend_manual_review = recommend\<rparr>)"


section \<open>Stage results\<close>

text \<open>
  The stages hand dictionaries to each other. A key that every producer sets is a plain
  field; a key that the language-model extractor may leave out is an option. Free-text
  \<open>notes\<close> and \<open>next_steps\<close> are formatted from the values kept here and feed no
  decision; they are left out.
\<close>

record extracted_data =
  xd_diagnosis :: "string option"
  xd_medicines :: "string list"
  xd_tests :: "string list"
  xd_procedures :: "string list"

record extraction_result =
  ex_has_prescription :: bool
  ex_has_bill :: bool
  ex_extracted_data :: extracted_data
  ex_confidence_score :: "rat option"

record eligibility_result =
  er_is_eligible :: bool
  er_rejection_reasons :: "string list"
  er_waiting_period_end_date :: "string option"
  er_confidence_score :: rat

record coverage_result =
  cr_is_covered :: bool
  cr_covered_items :: "string list"
  cr_excluded_items :: "string list"
  cr_pre_auth_required :: bool
  cr_pre_auth_obtained :: bool
  cr_applicable_sub_limit :: money
  cr_category :: "string option"
  cr_rejection_reasons :: "string list"
  cr_confidence_score :: rat

datatype decision_type = APPROVED | REJECTED | PARTIAL | MANUAL_REVIEW

record adjudication_result =
  ar_claim_id :: string
  ar_decision :: decision_type
  ar_approved_amount :: money
  ar_deductions :: "(string \<times> money) list"
  ar_rejected_items :: "string list"
  ar_rejection_reasons :: "string list"
  ar_confidence_score :: rat
  ar_fraud_flags :: "string list"
  ar_cashless_approved :: bool
  ar_network_discount :: money
  ar_eligibility_result :: "eligibility_result option"
  ar_coverage_result :: "coverage_result option"
  ar_limit_result :: "limit_result option"
  ar_fraud_result :: "fraud_result option"

datatype error = KeyError string | ValidationError string | OverflowError

text \<open>
  Constructing an \<open>AdjudicationResult\<close> validates \<open>confidence_score\<close> against
  \<open>Field(ge=0, le=1)\<close> and raises otherwise.
\<close>

definition AdjudicationResult :: "adjudication_result \<Rightarrow> error + adjudication_result" where
  "AdjudicationResult r =
     (if 0 \<le> ar_confidence_score r \<and> ar_confidence_score r \<le> 1 then Inr r
      else Inl (ValidationError ''confidence_score''))"


section \<open>Eligibility\<close>

text \<open>
  \<open>date.fromordinal\<close> and \<open>strftime("%Y-%m-%d")\<close>, the latter for years of four digits.
\<close>

definition from_ordinal :: "int \<Rightarrow> date" where
  "from_ordinal n0 =
     (let n = n0 - 1;
          n400 = n div 146097; n = n mod 146097;
          year = n400 * 400 + 1;
          n100 = n div 36524; n = n mod 36524;
          n4 = n div 1461; n = n mod 1461;
          n1 = n div 365; n = n mod 365;
          year = year + n100 * 100 + n4 * 4 + n1
      in if n1 = 4 \<or> n100 = 4 then (year - 1, 12, 31)
         else (let month = (n + 50) div 32;
                   preceding = days_before_month year month
               in if preceding > n
                  then (year, month - 1, n - (preceding - days_in_month year (month - 1)) + 1)
                  else (year, month, n - preceding + 1)))"

definition digit_char :: "int \<Rightarrow> char" where
  "digit_char d = ''0123456789'' ! nat (d mod 10)"

fun zpad :: "nat \<Rightarrow> int \<Rightarrow> string" where
  "zpad 0 n = []"
| "zpad (Suc w) n = zpad w (n div 10) @ [digit_char n]"

definition strftime_ymd :: "date \<Rightarrow> string" where
  "strftime_ymd dt = (case dt of (y, m, d) \<Rightarrow> zpad 4 y @ ''-'' @ zpad 2 m @ ''-'' @ zpad 2 d)"

text \<open>
  \<open>join_dt + timedelta(days=n)\<close>: a \<open>datetime\<close> covers the years 1 to 9999 and the sum
  raises \<open>OverflowError\<close> outside them.
\<close>

definition date_plus_days :: "date \<Rightarrow> int \<Rightarrow> error + date" where
  "date_plus_days dt n =
     (if 1 \<le> ordinal dt + n \<and> ordinal dt + n \<le> 3652059 then Inr (from_ordinal (ordinal dt + n))
      else Inl OverflowError)"

text \<open>
  \<open>get_waiting_periods\<close> builds a dictionary in this order; a specific ailment whose
  lower-cased name repeats an earlier key replaces it.
\<close>

definition get_waiting_periods :: "policy \<Rightarrow> (string \<times> int) list" where
  "get_waiting_periods P =
     (let waiting = pol_waiting_periods P
      in [(''initial'', dflt (wp_initial_waiting waiting) 30),
          (''pre_existing'', dflt (wp_pre_existing_diseases waiting) 365),
          (''maternity'', dflt (wp_maternity waiting) 270)] @
         map (\<lambda>(ailment, days). (py_lower ailment, days)) (wp_specific_ailments waiting))"

definition periods_get :: "(string \<times> int) list \<Rightarrow> string \<Rightarrow> int \<Rightarrow> int" where
  "periods_get periods k d = dflt (map_of (rev periods) k) d"

definition condition_waiting_map :: "(string \<times> int) list \<Rightarrow> (string \<times> int) list" where
  "condition_waiting_map waiting_periods =
     [(''diabetes'', periods_get waiting_periods ''diabetes'' 90),
      (''type 2 diabetes'', periods_get waiting_periods ''diabetes'' 90),
      (''type 1 diabetes'', periods_get waiting_periods ''diabetes'' 90),
      (''hypertension'', periods_get waiting_periods ''hypertension'' 90),
      (''blood pressure'', periods_get waiting_periods ''hypertension'' 90),
      (''high bp'', periods_get waiting_periods ''hypertension'' 90),
      (''joint replacement'', periods_get waiting_periods ''joint_replacement'' 730),
      (''knee replacement'', periods_get waiting_periods ''joint_replacement'' 730),
      (''hip replacement'', periods_get waiting_periods ''joint_replacement'' 730),
      (''arthroplasty'', periods_get waiting_periods ''joint_replacement'' 730)]"

definition waiting_result :: "date \<Rightarrow> int \<Rightarrow> rat \<Rightarrow> error + eligibility_result" where
  "waiting_result join_dt days confidence =
     (case date_plus_days join_dt days of
        Inl err \<Rightarrow> Inl err
      | Inr eligible_from \<Rightarrow>
          Inr \<lparr>er_is_eligible = False, er_rejection_reasons = [''WAITING_PERIOD''],
               er_waiting_period_end_date = Some (strftime_ymd eligible_from),
               er_confidence_score = confidence\<rparr>)"

definition check_eligibility ::
  "policy \<Rightarrow> string \<Rightarrow> string \<Rightarrow> string option \<Rightarrow> string \<Rightarrow> error + eligibility_result" where
  "check_eligibility P treatment_date diagnosis member_join_date policy_start_date =
     (let waiting_periods = get_waiting_periods P;
          join_text = (case member_join_date of
                         None \<Rightarrow> policy_start_date
                       | Some j \<Rightarrow> if j \<noteq> [] then j else policy_start_date)
      in case strptime treatment_date of
           None \<Rightarrow>
             Inr \<lparr>er_is_eligible = False, er_rejection_reasons = [''INVALID_DATE''],
                  er_waiting_period_end_date = None, er_confidence_score = 1\<rparr>
         | Some treatment_dt \<Rightarrow>
             (case strptime join_text of
                None \<Rightarrow>
                  Inr \<lparr>er_is_eligible = False, er_rejection_reasons = [''INVALID_DATE''],
                       er_waiting_period_end_date = None, er_confidence_score = 1\<rparr>
              | Some join_dt \<Rightarrow>
                  (let days_since_join = ordinal treatment_dt - ordinal join_dt;
                       initial_waiting = periods_get waiting_periods ''initial'' 30
                   in if days_since_join < initial_waiting
                      then waiting_result join_dt initial_waiting (98 / 100)
                      else (let diagnosis_lower = py_lower diagnosis
                            in case find (\<lambda>(keyword, waiting_days).
                                       py_in keyword diagnosis_lower \<and> days_since_join < waiting_days)
                                     (condition_waiting_map waiting_periods) of
                                 Some (keyword, waiting_days) \<Rightarrow>
                                   waiting_result join_dt waiting_days (96 / 100)
                               | None \<Rightarrow>
                                   Inr \<lparr>er_is_eligible = True, er_rejection_reasons = [],
                                        er_waiting_period_end_date = None,
                                        er_confidence_score = 95 / 100\<rparr>))))"


section \<open>The environment of a run\<close>

text \<open>
  What a run reads besides the claim and the policy: the clock, a fresh UUID, the order
  in which a set of strings is iterated (it follows from the hash seed of the process;
  here a rank per string), the reply of the document extractor and the reply of the
  limit-calculator agent. The two agents are language models; their replies are data of
  the run.
\<close>

datatype agent_reply = AgentFailed | AgentReply "money option" "rat option"

record env =
  now_date :: date
  now_hour :: int
  now_minute :: int
  now_second :: int
  uuid4 :: string
  hash_rank :: "(string \<times> nat) list"
  extractor_reply :: extraction_result
  limit_agent_reply :: agent_reply

definition py_list_set :: "env \<Rightarrow> string list \<Rightarrow> string list" where
  "py_list_set e xs = sort_key (\<lambda>s. dflt (map_of (hash_rank e) s) 0) (remdups xs)"

definition generate_claim_id :: "env \<Rightarrow> string" where
  "generate_claim_id e =
     (let timestamp = (case now_date e of (y, m, d) \<Rightarrow>
                         zpad 4 y @ zpad 2 m @ zpad 2 d @
                         zpad 2 (now_hour e) @ zpad 2 (now_minute e) @ zpad 2 (now_second e));
          unique_id = py_upper (take 8 (uuid4 e))
      in ''CLM_'' @ timestamp @ ''_'' @ unique_id)"

definition check_eligibility_with_agent ::
  "env \<Rightarrow> policy \<Rightarrow> claim_data \<Rightarrow> extraction_result \<Rightarrow> error + eligibility_result" where
  "check_eligibility_with_agent e P claim_data extracted_data =
     (let diagnosis = dflt (xd_diagnosis (ex_extracted_data extracted_data)) [];
          given = (case cd_member_join_date claim_data of
                     None \<Rightarrow> False
                   | Some j \<Rightarrow> j \<noteq> []);
          member_join_date =
            (if given then cd_member_join_date claim_data
             else Some (strftime_ymd (from_ordinal (ordinal (now_date e) - 365))))
      in check_eligibility P (cd_treatment_date claim_data) diagnosis member_join_date ''2024-01-01'')"


section \<open>Coverage validation\<close>

definition alt_medicine_keywords :: "string list" where
  "alt_medicine_keywords =
     [''ayurveda'', ''ayurvedic'', ''homeopathy'', ''unani'', ''panchakarma'', ''yoga therapy'']"

definition deficiency_keywords :: "string list" where
  "deficiency_keywords = [''deficiency'', ''anemia'', ''scurvy'', ''rickets'', ''malnutrition'']"

definition wellness_keywords :: "string list" where
  "wellness_keywords = [''wellness'', ''prevention'', ''supplement'', ''general health'', ''boost'']"

definition exclusion_keywords :: "(string \<times> string list) list" where
  "exclusion_keywords =
     [(''cosmetic'', [''cosmetic'', ''whitening'', ''aesthetic'', ''beauty'', ''bleaching'']),
      (''weight_loss'', [''weight loss'', ''obesity'', ''bariatric'', ''diet plan'', ''slimming'']),
      (''infertility'', [''infertility'', ''ivf'', ''fertility'']),
      (''experimental'', [''experimental'', ''unproven'', ''clinical trial'']),
      (''self_inflicted'', [''self-inflicted'', ''self inflicted'', ''suicide'']),
      (''adventure_sports'', [''adventure sports'', ''bungee'', ''skydiving'', ''paragliding'']),
      (''alcohol_drugs'', [''alcoholism'', ''drug abuse'', ''addiction'', ''substance''])]"

text \<open>\<open>s.replace('_', ' ').title()\<close> on ASCII text.\<close>

definition is_alpha :: "char \<Rightarrow> bool" where
  "is_alpha c = (is_upper c \<or> c \<in> set ''abcdefghijklmnopqrstuvwxyz'')"

fun title_from :: "bool \<Rightarrow> string \<Rightarrow> string" where
  "title_from inside [] = []"
| "title_from inside (c # s) =
     (if is_alpha c then (if inside then lower_char c else upper_char c) # title_from True s
      else c # title_from False s)"

definition type_title :: "string \<Rightarrow> string" where
  "type_title t = title_from False (map (\<lambda>c. if c = CHR ''_'' then CHR '' '' else c) t)"

definition check_exclusions :: "policy \<Rightarrow> string \<Rightarrow> string \<Rightarrow> bool \<times> string" where
  "check_exclusions P treatment diagnosis =
     (let exclusions = pol_exclusions P;
          treatment_lower = py_lower treatment;
          diagnosis_lower = py_lower diagnosis
      in if list_ex (\<lambda>kw. py_in kw treatment_lower \<or> py_in kw diagnosis_lower) alt_medicine_keywords
         then (False, [])
         else if py_in ''vitamin'' treatment_lower \<or> py_in ''supplement'' treatment_lower then
           (if list_ex (\<lambda>kw. py_in kw diagnosis_lower) deficiency_keywords then (False, [])
            else if list_ex (\<lambda>kw. py_in kw diagnosis_lower) wellness_keywords
              then (True, ''Vitamins and supplements (unless prescribed for deficiency)'')
            else (False, []))
         else (case find (\<lambda>(exclusion_type, keyword).
                        py_in keyword treatment_lower \<or> py_in keyword diagnosis_lower)
                      (concat (map (\<lambda>(exclusion_type, keywords). map (Pair exclusion_type) keywords)
                                   exclusion_keywords)) of
                 None \<Rightarrow> (False, [])
               | Some (exclusion_type, keyword) \<Rightarrow>
                   (case find (\<lambda>excl. py_in keyword (py_lower excl)) exclusions of
                      Some excl \<Rightarrow> (True, excl)
                    | None \<Rightarrow> (True, type_title exclusion_type @ '' procedures/treatments''))))"

definition pre_auth_tests :: "string list" where
  "pre_auth_tests = [''mri'', ''ct scan'', ''pet scan'']"

definition check_pre_authorization_required :: "string \<Rightarrow> money \<Rightarrow> bool" where
  "check_pre_authorization_required test_name amount =
     (let test_lower = py_lower test_name
      in list_ex (\<lambda>test. py_in test test_lower \<and> amount > 10000) pre_auth_tests)"

text \<open>\<open>str(xs)\<close> of a list of strings, that is \<open>repr\<close> of each element, on ASCII text.\<close>

definition hex2 :: "char \<Rightarrow> string" where
  "hex2 c = [''0123456789abcdef'' ! (of_char c div 16), ''0123456789abcdef'' ! (of_char c mod 16)]"

definition repr_char :: "char \<Rightarrow> char \<Rightarrow> string" where
  "repr_char quote c =
     (if c = CHR 0x5C then [CHR 0x5C, CHR 0x5C]
      else if c = quote then [CHR 0x5C, quote]
      else if c = CHR 0x09 then [CHR 0x5C, CHR ''t'']
      else if c = CHR 0x0A then [CHR 0x5C, CHR ''n'']
      else if c = CHR 0x0D then [CHR 0x5C, CHR ''r'']
      else if (of_char c :: nat) < 32 \<or> (of_char c :: nat) = 127 then [CHR 0x5C, CHR ''x''] @ hex2 c
      else [c])"

definition py_repr :: "string \<Rightarrow> string" where
  "py_repr s =
     (let quote = (if CHR 0x27 \<in> set s \<and> CHR 0x22 \<notin> set s then CHR 0x22 else CHR 0x27)
      in [quote] @ concat (map (repr_char quote) s) @ [quote])"

fun join_strings :: "string \<Rightarrow> string list \<Rightarrow> string" where
  "join_strings sep [] = []"
| "join_strings sep [x] = x"
| "join_strings sep (x # y # ys) = x @ sep @ join_strings sep (y # ys)"

definition py_str_list :: "string list \<Rightarrow> string" where
  "py_str_list xs = ''['' @ join_strings '', '' (map py_repr xs) @ '']''"

text \<open>The lists that \<open>validate_coverage\<close> appends to, and the flag it sets.\<close>

record coverage_state =
  cs_covered_items :: "string list"
  cs_excluded_items :: "string list"
  cs_rejection_reasons :: "string list"
  cs_pre_auth_required :: bool

definition add_reason :: "string \<Rightarrow> string list \<Rightarrow> string list" where
  "add_reason code reasons = (if code \<in> set reasons then reasons else reasons @ [code])"

text \<open>One turn of the loop over \<open>all_items\<close>.\<close>

definition item_step :: "policy \<Rightarrow> string \<Rightarrow> coverage_state \<Rightarrow> string \<Rightarrow> coverage_state" where
  "item_step P diagnosis st item =
     (if item = [] then st
      else (let item_lower = py_lower item
            in if list_ex (\<lambda>kw. py_in kw item_lower)
                    [''ayurveda'', ''ayurvedic'', ''homeopathy'', ''unani'', ''panchakarma'']
               then st\<lparr>cs_covered_items := cs_covered_items st @ [item]\<rparr>
               else (case check_exclusions P item diagnosis of
                       (is_excluded, exclusion_reason) \<Rightarrow>
                         if is_excluded then
                           (let reason_lower = py_lower exclusion_reason;
                                code =
                                  (if py_in ''cosmetic'' reason_lower \<or> py_in ''whitening'' item_lower
                                   then ''COSMETIC_PROCEDURE''
                                   else if py_in ''weight'' reason_lower \<or> py_in ''obesity'' item_lower \<or>
                                           py_in ''diet plan'' item_lower
                                   then ''SERVICE_NOT_COVERED''
                                   else ''EXCLUDED_CONDITION'')
                            in st\<lparr>cs_excluded_items :=
                                     cs_excluded_items st @ [item @ '' - '' @ exclusion_reason],
                                   cs_rejection_reasons := add_reason code (cs_rejection_reasons st)\<rparr>)
                         else st\<lparr>cs_covered_items := cs_covered_items st @ [item]\<rparr>)))"

text \<open>
  One turn of the loop over the medicines: each of the three branches of the source
  appends the medicine to the covered items.
\<close>

definition medicine_step :: "bool \<Rightarrow> coverage_state \<Rightarrow> string \<Rightarrow> coverage_state" where
  "medicine_step is_deficiency_treatment st med =
     (if med = [] then st
      else (let med_lower = py_lower med
            in if py_in ''vitamin'' med_lower \<or> py_in ''supplement'' med_lower then
                 (if is_deficiency_treatment
                  then st\<lparr>cs_covered_items := cs_covered_items st @ [med]\<rparr>
                  else st\<lparr>cs_covered_items := cs_covered_items st @ [med]\<rparr>)
               else st\<lparr>cs_covered_items := cs_covered_items st @ [med]\<rparr>))"

text \<open>One turn of the loop over the tests.\<close>

definition test_step :: "money \<Rightarrow> bool \<Rightarrow> coverage_state \<Rightarrow> string \<Rightarrow> coverage_state" where
  "test_step claim_amount pre_auth_obtained st test =
     (if test = [] then st
      else if check_pre_authorization_required test claim_amount then
        (if \<not> pre_auth_obtained
         then st\<lparr>cs_pre_auth_required := True,
                 cs_rejection_reasons := add_reason ''PRE_AUTH_MISSING'' (cs_rejection_reasons st),
                 cs_excluded_items := cs_excluded_items st @ [test @ '' - requires pre-authorization'']\<rparr>
         else st\<lparr>cs_pre_auth_required := True, cs_covered_items := cs_covered_items st @ [test]\<rparr>)
      else st\<lparr>cs_covered_items := cs_covered_items st @ [test]\<rparr>)"

definition detect_category :: "string \<Rightarrow> string list \<Rightarrow> string list \<Rightarrow> string list \<Rightarrow> string" where
  "detect_category diagnosis all_items medicines tests =
     (if list_ex (\<lambda>item. py_in ''dental'' (py_lower item)) all_items \<or>
         list_ex (\<lambda>proc. py_in proc (py_lower (py_str_list all_items)))
           [''root canal'', ''extraction'', ''filling'']
      then ''dental''
      else if list_ex (\<lambda>med. py_in med (py_lower (py_str_list medicines))) [''ayur'', ''homeo'', ''unani''] \<or>
              py_in ''ayur'' (py_lower diagnosis) \<or>
              py_in ''panchakarma'' (py_lower (py_str_list all_items))
      then ''alternative_medicine''
      else if tests \<noteq> [] \<and> length tests > 0 then ''diagnostic''
      else if medicines \<noteq> [] \<and> length medicines > 0 then ''pharmacy''
      else ''consultation'')"

definition category_default_limit :: "string \<Rightarrow> money" where
  "category_default_limit c =
     (if c = ''dental'' then 10000
      else if c = ''alternative_medicine'' then 8000
      else if c = ''diagnostic'' then 10000
      else if c = ''pharmacy'' then 15000
      else 2000)"

definition validate_coverage ::
  "policy \<Rightarrow> string \<Rightarrow> string list \<Rightarrow> string list \<Rightarrow> string list \<Rightarrow> string list \<Rightarrow> money
   \<Rightarrow> string option \<Rightarrow> bool \<Rightarrow> coverage_result" where
  "validate_coverage P diagnosis treatments procedures medicines tests claim_amount category_arg
       pre_auth_obtained =
     (let all_items = treatments @ procedures @ (if diagnosis \<noteq> [] then [diagnosis] else []);
          diagnosis_lower = py_lower diagnosis;
          is_deficiency_treatment = list_ex (\<lambda>kw. py_in kw diagnosis_lower) deficiency_keywords;
          st0 = \<lparr>cs_covered_items = [], cs_excluded_items = [], cs_rejection_reasons = [],
                 cs_pre_auth_required = False\<rparr>;
          st1 = foldl (item_step P diagnosis) st0 all_items;
          st2 = foldl (medicine_step is_deficiency_treatment) st1 medicines;
          st3 = foldl (test_step claim_amount pre_auth_obtained) st2 tests;
          given = (case category_arg of None \<Rightarrow> False | Some c \<Rightarrow> c \<noteq> []);
          category =
            (if given then category_arg
             else Some (detect_category diagnosis all_items medicines tests));
          applicable_sub_limit =
            (if given then jget_num (get_sub_limits P category) ''limit'' 5000
             else jget_num (get_sub_limits P category) ''limit''
                    (category_default_limit (dflt category [])));
          is_covered = (length (cs_rejection_reasons st3) = 0)
      in \<lparr>cr_is_covered = is_covered,
          cr_covered_items = cs_covered_items st3,
          cr_excluded_items = cs_excluded_items st3,
          cr_pre_auth_required = cs_pre_auth_required st3,
          cr_pre_auth_obtained = pre_auth_obtained,
          cr_applicable_sub_limit = applicable_sub_limit,
          cr_category = category,
          cr_rejection_reasons = cs_rejection_reasons st3,
          cr_confidence_score = (if is_covered then 92 / 100 else 95 / 100)\<rparr>)"

text \<open>
  The wrapper called by the workflow. Its call of \<open>validate_coverage\<close> passes no
  \<open>pre_auth_obtained\<close>, so the parameter takes its default \<open>False\<close>.
\<close>

definition validate_coverage_with_agent ::
  "env \<Rightarrow> policy \<Rightarrow> claim_data \<Rightarrow> extraction_result \<Rightarrow> coverage_result" where
  "validate_coverage_with_agent e P claim_data extracted_data =
     (let ext_data = ex_extracted_data extracted_data;
          diagnosis0 = dflt (xd_diagnosis ext_data) [];
          medicines = xd_medicines ext_data;
          tests = xd_tests ext_data;
          procedures = xd_procedures ext_data;
          prescription = doc_prescription (cd_documents claim_data);
          presc_procedures = (case prescription of None \<Rightarrow> [] | Some p \<Rightarrow> rx_procedures p);
          presc_treatment = (case prescription of None \<Rightarrow> [] | Some p \<Rightarrow> dflt (rx_treatment p) []);
          presc_medicines = (case prescription of None \<Rightarrow> [] | Some p \<Rightarrow> rx_medicines_prescribed p);
          treatments = presc_procedures @ (if presc_treatment \<noteq> [] then [presc_treatment] else []);
          all_medicines = py_list_set e (medicines @ presc_medicines);
          diagnosis =
            (if diagnosis0 = []
             then (case prescription of None \<Rightarrow> [] | Some p \<Rightarrow> dflt (rx_diagnosis p) [])
             else diagnosis0);
          diagnosis_lower = py_lower diagnosis;
          given = (case cd_category claim_data of None \<Rightarrow> False | Some c \<Rightarrow> c \<noteq> []);
          category =
            (if given then cd_category claim_data
             else if list_ex (\<lambda>kw. py_in kw diagnosis_lower)
                       [''ayurveda'', ''ayurvedic'', ''homeopathy'', ''unani'', ''panchakarma'']
               then Some ''alternative_medicine''
             else if list_ex (\<lambda>kw. py_in kw (py_lower (py_str_list treatments)))
                       [''ayurveda'', ''panchakarma'', ''homeopathy'']
               then Some ''alternative_medicine''
             else cd_category claim_data)
      in validate_coverage P diagnosis treatments procedures all_medicines tests
           (cd_claim_amount claim_data) category False)"


section \<open>The limit stage of the workflow\<close>

text \<open>One turn of the loop that maps excluded items to billed amounts.\<close>

definition excluded_step :: "(string \<times> money) list \<Rightarrow> money \<Rightarrow> string \<Rightarrow> money" where
  "excluded_step bill excluded_amount item =
     (if item = [] then excluded_amount
      else (let item_lower = py_lower item
            in if py_in ''whitening'' item_lower \<or> py_in ''teeth whitening'' item_lower
               then excluded_amount + bill_get bill ''teeth_whitening''
               else if py_in ''diet'' item_lower
               then excluded_amount + bill_get bill ''diet_plan''
               else if py_in ''cosmetic'' item_lower
               then excluded_amount + (bill_get bill ''teeth_whitening'' + bill_get bill ''cosmetic'')
               else excluded_amount))"

text \<open>
  The dictionary that \<open>calculate_limits\<close> returns for a claim under the minimum amount has
  \<open>within_limits\<close> false and no key \<open>per_claim_exceeded\<close>, so the first test of the wrapper,
  \<open>not result["within_limits"] and result["per_claim_exceeded"]\<close>, raises \<open>KeyError\<close> on it.
  Otherwise the agent is consulted when an amount is excluded or the sub-limit is
  exceeded; a reply with an \<open>approved_amount\<close> replaces the amount and the confidence, and
  a failure of the agent leaves the rule-based result.
\<close>

definition calculate_limits_with_agent ::
  "env \<Rightarrow> policy \<Rightarrow> claim_data \<Rightarrow> extraction_result \<Rightarrow> coverage_result \<Rightarrow> error + limit_result" where
  "calculate_limits_with_agent e P claim_data extracted_data coverage_result =
     (let claim_amount = cd_claim_amount claim_data;
          hospital_name = cd_hospital claim_data;
          previous_claims_ytd = cd_previous_claims_ytd claim_data;
          excluded_items = cr_excluded_items coverage_result;
          bill = doc_bill (cd_documents claim_data);
          excluded_amount = foldl (excluded_step bill) 0 excluded_items;
          category = cr_category coverage_result;
          sub_limit = Some (cr_applicable_sub_limit coverage_result);
          result = calculate_limits P claim_amount category hospital_name excluded_amount
                     previous_claims_ytd sub_limit
      in case lr_details result of
           None \<Rightarrow> Inl (KeyError ''per_claim_exceeded'')
         | Some d \<Rightarrow>
             (if \<not> lr_within_limits result \<and> ld_per_claim_exceeded d then Inr result
              else if excluded_amount > 0 \<or> ld_sub_limit_exceeded d then
                (case limit_agent_reply e of
                   AgentFailed \<Rightarrow> Inr result
                 | AgentReply None confidence \<Rightarrow> Inr result
                 | AgentReply (Some approved) confidence \<Rightarrow>
                     Inr (result\<lparr>lr_approved_amount := approved,
                                 lr_confidence_score := dflt confidence (92 / 100)\<rparr>))
              else Inr result))"


section \<open>Decision synthesis\<close>

definition hard_rejection_reasons :: "string list" where
  "hard_rejection_reasons =
     [''POLICY_INACTIVE'', ''MEMBER_NOT_COVERED'', ''WAITING_PERIOD'', ''MISSING_DOCUMENTS'',
      ''PRE_AUTH_MISSING'', ''PER_CLAIM_EXCEEDED'']"

definition make_decision ::
  "int \<Rightarrow> string \<Rightarrow> claim_data \<Rightarrow> extraction_result \<Rightarrow> eligibility_result \<Rightarrow> coverage_result
   \<Rightarrow> limit_result \<Rightarrow> error + adjudication_result" where
  "make_decision current_year claim_id claim_data extraction_result eligibility_result
       coverage_result limit_result =
     (let fraud_result =
            check_fraud_indicators current_year claim_data
              (cd_previous_claims_same_day claim_data) (cd_previous_claims_ytd claim_data) 50000;
          all_rejection_reasons =
            er_rejection_reasons eligibility_result @ cr_rejection_reasons coverage_result @
            lr_rejection_reasons limit_result;
          excluded_items = cr_excluded_items coverage_result;
          covered_items = cr_covered_items coverage_result;
          approved_amount = lr_approved_amount limit_result;
          claim_amount = cd_claim_amount claim_data;
          confidence_scores =
            [dflt (ex_confidence_score extraction_result) (85 / 100),
             er_confidence_score eligibility_result,
             cr_confidence_score coverage_result,
             lr_confidence_score limit_result];
          avg_confidence = sum_list confidence_scores / of_nat (length confidence_scores);
          fraud_risk = fr_risk_score fraud_result;
          fraud_flags = fr_fraud_flags fraud_result;
          final_confidence = avg_confidence * (1 - fraud_risk * (1 / 2));
          has_hard_rejection =
            list_ex (\<lambda>r. r \<in> set hard_rejection_reasons) all_rejection_reasons;
          is_fully_excluded_service =
            (''SERVICE_NOT_COVERED'' \<in> set all_rejection_reasons \<and> length covered_items = 0);
          (decision, approved_amount) =
            (if has_hard_rejection \<or> is_fully_excluded_service then (REJECTED, 0)
             else if fr_recommend_manual_review fraud_result \<or> fraud_risk \<ge> 35 / 100
               then (MANUAL_REVIEW, approved_amount)
             else if excluded_items \<noteq> [] \<and> length covered_items > 0
               then (PARTIAL, approved_amount)
             else if approved_amount > 0
               then (if approved_amount \<ge> claim_amount * (80 / 100) then (APPROVED, approved_amount)
                     else (PARTIAL, approved_amount))
             else (REJECTED, approved_amount));
          details = lr_details limit_result;
          deductions =
            [(''copay'', (case details of None \<Rightarrow> 0 | Some d \<Rightarrow> ld_copay_amount d)),
             (''excluded_items'', (case details of None \<Rightarrow> 0 | Some d \<Rightarrow> ld_excluded_amount d)),
             (''network_discount'', (case details of None \<Rightarrow> 0 | Some d \<Rightarrow> ld_network_discount d))];
          cashless_approved =
            (cd_cashless_request claim_data \<and>
             (case details of None \<Rightarrow> False | Some d \<Rightarrow> ld_is_network_hospital d) \<and>
             decision \<in> set [APPROVED, PARTIAL] \<and>
             approved_amount \<le> 5000)
      in AdjudicationResult
           \<lparr>ar_claim_id = claim_id,
            ar_decision = decision,
            ar_approved_amount = round2 approved_amount,
            ar_deductions = deductions,
            ar_rejected_items = excluded_items,
            ar_rejection_reasons = all_rejection_reasons,
            ar_confidence_score = round2 final_confidence,
            ar_fraud_flags = fraud_flags,
            ar_cashless_approved = cashless_approved,
            ar_network_discount = (case details of None \<Rightarrow> 0 | Some d \<Rightarrow> ld_network_discount d),
            ar_eligibility_result = Some eligibility_result,
            ar_coverage_result = Some coverage_result,
            ar_limit_result = Some limit_result,
            ar_fraud_result = Some fraud_result\<rparr>)"

text \<open>
  \<open>make_decision_with_agent\<close> returns the rule-based result on each of its three paths;
  no agent is called.
\<close>

definition make_decision_with_agent ::
  "int \<Rightarrow> string \<Rightarrow> claim_data \<Rightarrow> extraction_result \<Rightarrow> eligibility_result \<Rightarrow> coverage_result
   \<Rightarrow> limit_result \<Rightarrow> error + adjudication_result" where
  "make_decision_with_agent current_year claim_id claim_data extraction_result eligibility_result
       coverage_result limit_result =
     (case make_decision current_year claim_id claim_data extraction_result eligibility_result
             coverage_result limit_result of
        Inl e \<Rightarrow> Inl e
      | Inr result \<Rightarrow>
          (if ar_decision result \<in> set [REJECTED, MANUAL_REVIEW] then Inr result
           else if ar_confidence_score result \<ge> 85 / 100 then Inr result
           else Inr result))"


section \<open>The workflow\<close>

text \<open>
  \<open>ClaimAdjudicationWorkflow.process\<close>. The first component of the result lists the
  stages that were entered, in order; the source prints a banner on entering each.
  Fraud scoring is the first action of the decision stage.
\<close>

datatype stage = Extraction | Eligibility | Coverage | Limits | Decision

definition rejected_early ::
  "string \<Rightarrow> string list \<Rightarrow> rat \<Rightarrow> eligibility_result option \<Rightarrow> error + adjudication_result" where
  "rejected_early claim_id reasons confidence eligibility =
     AdjudicationResult
       \<lparr>ar_claim_id = claim_id, ar_decision = REJECTED, ar_approved_amount = 0,
        ar_deductions = [], ar_rejected_items = [], ar_rejection_reasons = reasons,
        ar_confidence_score = confidence, ar_fraud_flags = [], ar_cashless_approved = False,
        ar_network_discount = 0, ar_eligibility_result = eligibility,
        ar_coverage_result = None, ar_limit_result = None, ar_fraud_result = None\<rparr>"

definition process :: "env \<Rightarrow> policy \<Rightarrow> claim_data \<Rightarrow> stage list \<times> (error + adjudication_result)" where
  "process e P claim_data =
     (let claim_id = (case cd_claim_id claim_data of
                        None \<Rightarrow> generate_claim_id e
                      | Some i \<Rightarrow> if i \<noteq> [] then i else generate_claim_id e);
          extraction_result = extractor_reply e
      in if \<not> ex_has_prescription extraction_result
         then ([Extraction], rejected_early claim_id [''MISSING_DOCUMENTS''] 1 None)
         else if \<not> ex_has_bill extraction_result
         then ([Extraction], rejected_early claim_id [''MISSING_DOCUMENTS''] 1 None)
         else (case check_eligibility_with_agent e P claim_data extraction_result of
                 Inl err \<Rightarrow> ([Extraction, Eligibility], Inl err)
               | Inr eligibility_result \<Rightarrow>
                   (if \<not> er_is_eligible eligibility_result
                    then ([Extraction, Eligibility],
                          rejected_early claim_id (er_rejection_reasons eligibility_result)
                            (er_confidence_score eligibility_result) (Some eligibility_result))
                    else (let coverage_result =
                                validate_coverage_with_agent e P claim_data extraction_result
                          in case calculate_limits_with_agent e P claim_data extraction_result
                                    coverage_result of
                               Inl err \<Rightarrow> ([Extraction, Eligibility, Coverage, Limits], Inl err)
                             | Inr limit_result \<Rightarrow>
                                 ([Extraction, Eligibility, Coverage, Limits, Decision],
                                  make_decision_with_agent (fst (now_date e)) claim_id claim_data
                                    extraction_result eligibility_result coverage_result
                                    limit_result)))))"


section \<open>Specification-side definitions and sample inputs\<close>

definition empty_policy :: policy where
  "empty_policy =
     \<lparr>pol_coverage_details =
        \<lparr>cov_annual_limit = None, cov_per_claim_limit = None,
         cov_consultation_fees = \<lparr>cf_sub_limit = None, cf_copay_percentage = None, cf_network_discount = None\<rparr>,
         cov_diagnostic_tests = \<lparr>dt_sub_limit = None, dt_pre_authorization_required = None, dt_covered_tests = None\<rparr>,
         cov_pharmacy = \<lparr>ph_sub_limit = None, ph_generic_drugs_mandatory = None, ph_branded_drugs_copay = None\<rparr>,
         cov_dental = \<lparr>de_sub_limit = None, de_routine_checkup_limit = None, de_procedures_covered = None, de_cosmetic_procedures = None\<rparr>,
         cov_vision = \<lparr>vi_sub_limit = None, vi_eye_test_covered = None, vi_glasses_contact_lenses = None, vi_lasik_surgery = None\<rparr>,
         cov_alternative_medicine = \<lparr>am_sub_limit = None, am_covered_treatments = None, am_therapy_sessions_limit = None\<rparr>\<rparr>,
      pol_waiting_periods = \<lparr>wp_initial_waiting = None, wp_pre_existing_diseases = None, wp_maternity = None, wp_specific_ailments = []\<rparr>,
      pol_exclusions = [], pol_network_hospitals = [], pol_minimum_claim_amount = None\<rparr>"





definition flag_weight :: "string \<Rightarrow> rat" where
  "flag_weight name =
     dflt (map_of
       [(''Multiple claims on same day (3+)'', 3 / 10),
        (''Multiple claims on same day'', 15 / 100),
        (''Near annual limit exhaustion'', 1 / 10),
        (''Claim amount very close to per-claim limit'', 1 / 10),
        (''Invalid or suspicious doctor registration'', 25 / 100),
        (''Unusually high number of medicines prescribed'', 1 / 10),
        (''Multiple round number amounts in bill'', 5 / 100),
        (''Non-emergency treatment on weekend'', 5 / 100)] name) 0"

definition additive_score :: "string list \<Rightarrow> rat" where
  "additive_score flags = sum_list (map flag_weight flags)"

definition fired :: "string list \<Rightarrow> string list \<times> rat \<Rightarrow> bool" where
  "fired names st =
     (snd st = additive_score (fst st) \<and> distinct (fst st) \<and> set (fst st) \<subseteq> set names \<and> 0 \<le> snd st)"

definition merged_rejection_reasons ::
  "eligibility_result \<Rightarrow> coverage_result \<Rightarrow> limit_result \<Rightarrow> string list" where
  "merged_rejection_reasons e c l =
     er_rejection_reasons e @ cr_rejection_reasons c @ lr_rejection_reasons l"

definition hard_rejection :: "eligibility_result \<Rightarrow> coverage_result \<Rightarrow> limit_result \<Rightarrow> bool" where
  "hard_rejection e c l =
     ((\<exists>r \<in> set (merged_rejection_reasons e c l). r \<in> set hard_rejection_reasons) \<or>
      (''SERVICE_NOT_COVERED'' \<in> set (merged_rejection_reasons e c l) \<and> cr_covered_items c = []))"

definition confidences_valid ::
  "extraction_result \<Rightarrow> eligibility_result \<Rightarrow> coverage_result \<Rightarrow> limit_result \<Rightarrow> bool" where
  "confidences_valid x e c l =
     (list_all (\<lambda>v. 0 \<le> v \<and> v \<le> 1)
        [dflt (ex_confidence_score x) (85 / 100), er_confidence_score e,
         cr_confidence_score c, lr_confidence_score l])"

definition sample_prescription :: prescription where
  "sample_prescription =
     \<lparr>rx_doctor_reg = Some ''KA/45678/2015'', rx_diagnosis = Some ''Viral fever'',
      rx_medicines_prescribed = [''Paracetamol''], rx_tests_prescribed = [''CBC'', ''Dengue''],
      rx_procedures = [], rx_treatment = None\<rparr>"

definition sample_claim :: claim_data where
  "sample_claim =
     \<lparr>cd_claim_id = Some ''CLM_1'', cd_member_id = ''EMP001'', cd_member_name = ''Rajesh Kumar'',
      cd_treatment_date = ''2024-11-01'', cd_claim_amount = 1500, cd_hospital = None,
      cd_cashless_request = False, cd_category = None,
      cd_documents = \<lparr>doc_prescription = Some sample_prescription,
                       doc_bill = [(''consultation_fee'', 900), (''diagnostic_tests'', 600)]\<rparr>,
      cd_member_join_date = Some ''2024-01-01'', cd_previous_claims_same_day = 0,
      cd_previous_claims_ytd = 0\<rparr>"


definition sample_extraction :: extraction_result where
  "sample_extraction =
     \<lparr>ex_has_prescription = True, ex_has_bill = True,
      ex_extracted_data = \<lparr>xd_diagnosis = Some ''Viral fever'', xd_medicines = [''Paracetamol''],
                           xd_tests = [''CBC'', ''Dengue''], xd_procedures = []\<rparr>,
      ex_confidence_score = Some (9 / 10)\<rparr>"

definition sample_eligibility :: eligibility_result where
  "sample_eligibility =
     \<lparr>er_is_eligible = True, er_rejection_reasons = [], er_waiting_period_end_date = None,
      er_confidence_score = 95 / 100\<rparr>"


definition rejecting_coverage :: coverage_result where
  "rejecting_coverage =
     \<lparr>cr_is_covered = False, cr_covered_items = [''Paracetamol''],
      cr_excluded_items = [''MRI Lumbar Spine - requires pre-authorization''],
      cr_pre_auth_required = True, cr_pre_auth_obtained = False, cr_applicable_sub_limit = 10000,
      cr_category = Some ''diagnostic'', cr_rejection_reasons = [''PRE_AUTH_MISSING''],
      cr_confidence_score = 95 / 100\<rparr>"

definition sample_env :: env where
  "sample_env =
     \<lparr>now_date = (2026, 11, 4), now_hour = 9, now_minute = 5, now_second = 7,
      uuid4 = ''3f2a9c1e-7b4d-4e2a-9f3c-1a2b3c4d5e6f'', hash_rank = [],
      extractor_reply = sample_extraction, limit_agent_reply = AgentFailed\<rparr>"

definition mri_extraction :: extraction_result where
  "mri_extraction =
     \<lparr>ex_has_prescription = True, ex_has_bill = True,
      ex_extracted_data = \<lparr>xd_diagnosis = Some ''Back pain'', xd_medicines = [],
                           xd_tests = [''MRI Lumbar Spine''], xd_procedures = []\<rparr>,
      ex_confidence_score = Some (9 / 10)\<rparr>"


section \<open>Auxiliary lemmas\<close>

lemma py_round_of_int: "py_round (of_int n) = n"
  by (simp add: py_round_def)

lemma py_round_lower: "\<lfloor>x\<rfloor> \<le> py_round x"
  by (simp add: py_round_def Let_def)

lemma py_round_upper: "py_round x \<le> \<lfloor>x\<rfloor> + 1"
  by (simp add: py_round_def Let_def)

lemma py_round_mono:
  assumes "x \<le> y"
  shows "py_round x \<le> py_round y"
proof (cases "\<lfloor>x\<rfloor> = \<lfloor>y\<rfloor>")
  case True
  with assms show ?thesis
    by (auto simp add: py_round_def Let_def)
next
  case False
  with assms have "\<lfloor>x\<rfloor> < \<lfloor>y\<rfloor>"
    using floor_mono [of x y] by linarith
  then have "py_round x \<le> \<lfloor>y\<rfloor>"
    using py_round_upper [of x] by linarith
  then show ?thesis
    using py_round_lower [of y] by linarith
qed


lemma py_round_near_lo: "x - 1 / 2 \<le> of_int (py_round x)"
  unfolding py_round_def Let_def
  by (auto; linarith)

lemma round2_mono: "x \<le> y \<Longrightarrow> round2 x \<le> round2 y"
  unfolding round2_def
  by (simp add: py_round_mono divide_right_mono)

lemma round2_cents: "round2 (of_int n / 100) = of_int n / 100"
  by (simp add: round2_def py_round_of_int)

lemma round2_zero: "round2 0 = 0"
  by (simp add: round2_def py_round_def)



lemma round2_near_lo: "x - 1 / 200 \<le> round2 x"
  using py_round_near_lo [of "x * 100"] unfolding round2_def by (simp add: field_simps)

lemma round2_nonneg: "0 \<le> x \<Longrightarrow> 0 \<le> round2 x"
  using round2_mono [of 0 x] by (simp add: round2_zero)







lemma fired_raise:
  assumes "fired names st" "name \<notin> set names" "flag_weight name = w" "0 \<le> w"
  shows "fired (name # names) (raise_flag name w st)"
  using assms by (auto simp add: fired_def raise_flag_def additive_score_def)

lemma fired_weaken: "fired names st \<Longrightarrow> set names \<subseteq> set names' \<Longrightarrow> fired names' st"
  by (auto simp add: fired_def)

lemma fired_same_day:
  assumes "fired [] st"
  shows "fired [''Multiple claims on same day (3+)'', ''Multiple claims on same day'']
           (check_same_day same_day st)"
proof -
  have a: "fired [''Multiple claims on same day (3+)'']
             (raise_flag ''Multiple claims on same day (3+)'' (3 / 10) st)"
    by (rule fired_raise [OF assms]) (simp_all add: flag_weight_def dflt_def)
  have b: "fired [''Multiple claims on same day'']
             (raise_flag ''Multiple claims on same day'' (15 / 100) st)"
    by (rule fired_raise [OF assms]) (simp_all add: flag_weight_def dflt_def)
  show ?thesis
    unfolding check_same_day_def
    using a b assms by (auto elim: fired_weaken)
qed

lemma fired_utilization:
  assumes "fired names st" "''Near annual limit exhaustion'' \<notin> set names"
  shows "fired (''Near annual limit exhaustion'' # names) (check_utilization ytd amount annual st)"
proof -
  have "fired (''Near annual limit exhaustion'' # names)
          (raise_flag ''Near annual limit exhaustion'' (1 / 10) st)"
    by (rule fired_raise [OF assms]) (simp_all add: flag_weight_def dflt_def)
  then show ?thesis
    unfolding check_utilization_def Let_def
    using assms(1) by (auto elim: fired_weaken)
qed

lemma fired_high_amount:
  assumes "fired names st" "''Claim amount very close to per-claim limit'' \<notin> set names"
  shows "fired (''Claim amount very close to per-claim limit'' # names) (check_high_amount amount st)"
proof -
  have "fired (''Claim amount very close to per-claim limit'' # names)
          (raise_flag ''Claim amount very close to per-claim limit'' (1 / 10) st)"
    by (rule fired_raise [OF assms]) (simp_all add: flag_weight_def dflt_def)
  then show ?thesis
    unfolding check_high_amount_def Let_def
    using assms(1) by (auto elim: fired_weaken)
qed

lemma fired_prescription:
  assumes "fired names st"
    and "''Invalid or suspicious doctor registration'' \<notin> set names"
    and "''Unusually high number of medicines prescribed'' \<notin> set names"
  shows "fired (''Unusually high number of medicines prescribed'' #
                ''Invalid or suspicious doctor registration'' # names)
           (check_prescription current_year presc st)"
proof (cases presc)
  case None
  with assms(1) show ?thesis
    by (auto simp add: check_prescription_def elim: fired_weaken)
next
  case (Some p)
  define s where "s = (if \<not> validate_doctor_registration current_year (Some (dflt (rx_doctor_reg p) []))
                    then raise_flag ''Invalid or suspicious doctor registration'' (25 / 100) st
                    else st)"
  have "fired (''Invalid or suspicious doctor registration'' # names)
          (raise_flag ''Invalid or suspicious doctor registration'' (25 / 100) st)"
    by (rule fired_raise [OF assms(1,2)]) (simp_all add: flag_weight_def dflt_def)
  then have s: "fired (''Invalid or suspicious doctor registration'' # names) s"
    unfolding s_def using assms(1) by (auto elim: fired_weaken)
  have "fired (''Unusually high number of medicines prescribed'' #
               ''Invalid or suspicious doctor registration'' # names)
          (raise_flag ''Unusually high number of medicines prescribed'' (1 / 10) s)"
    by (rule fired_raise [OF s]) (use assms(3) in \<open>simp_all add: flag_weight_def dflt_def\<close>)
  then show ?thesis
    unfolding check_prescription_def Some option.case Let_def s_def [symmetric]
    using s by (auto elim: fired_weaken)
qed

lemma fired_bill:
  assumes "fired names st" "''Multiple round number amounts in bill'' \<notin> set names"
  shows "fired (''Multiple round number amounts in bill'' # names) (check_bill bill st)"
proof -
  have "fired (''Multiple round number amounts in bill'' # names)
          (raise_flag ''Multiple round number amounts in bill'' (5 / 100) st)"
    by (rule fired_raise [OF assms]) (simp_all add: flag_weight_def dflt_def)
  then show ?thesis
    unfolding check_bill_def Let_def
    using assms(1) by (auto elim: fired_weaken)
qed

lemma fired_weekend:
  assumes "fired names st" "''Non-emergency treatment on weekend'' \<notin> set names"
  shows "fired (''Non-emergency treatment on weekend'' # names) (check_weekend tdate presc st)"
proof -
  have "fired (''Non-emergency treatment on weekend'' # names)
          (raise_flag ''Non-emergency treatment on weekend'' (5 / 100) st)"
    by (rule fired_raise [OF assms]) (simp_all add: flag_weight_def dflt_def)
  then show ?thesis
    unfolding check_weekend_def Let_def
    using assms(1) by (auto elim: fired_weaken split: option.splits)
qed

lemma fired_fraud_checks:
  "\<exists>names. fired names (fraud_checks current_year cd same_day ytd annual)"
proof -
  have "fired [] ([], 0)"
    by (simp add: fired_def additive_score_def)
  note fired_same_day [OF this]
  note fired_utilization [OF this]
  note fired_high_amount [OF this]
  note fired_prescription [OF this]
  note fired_bill [OF this]
  note fired_weekend [OF this]
  then show ?thesis
    unfolding fraud_checks_def Let_def by (simp; blast)
qed

lemma round2_one: "round2 1 = 1"
  using round2_cents [of 100] by simp

lemma fraud_risk_range:
  "0 \<le> fr_risk_score (check_fraud_indicators current_year cd same_day ytd annual) \<and>
   fr_risk_score (check_fraud_indicators current_year cd same_day ytd annual) \<le> 1"
proof -
  obtain names where f: "fired names (fraud_checks current_year cd same_day ytd annual)"
    using fired_fraud_checks by blast
  let ?st = "fraud_checks current_year cd same_day ytd annual"
  have "0 \<le> min (snd ?st) 1"
    using f by (simp add: fired_def)
  then have lo: "0 \<le> round2 (min (snd ?st) 1)"
    by (rule round2_nonneg)
  have hi: "round2 (min (snd ?st) 1) \<le> 1"
    using round2_mono [of "min (snd ?st) 1" 1] by (simp add: round2_one)
  show ?thesis
    using lo hi by (simp add: check_fraud_indicators_def Let_def)
qed

lemma round2_unit: "0 \<le> v \<Longrightarrow> v \<le> 1 \<Longrightarrow> 0 \<le> round2 v \<and> round2 v \<le> 1"
  using round2_mono [of 0 v] round2_mono [of v 1] by (simp add: round2_zero round2_one)

lemma blended_confidence_range:
  fixes a b c d k :: rat
  assumes "0 \<le> a" "a \<le> 1" "0 \<le> b" "b \<le> 1" "0 \<le> c" "c \<le> 1" "0 \<le> d" "d \<le> 1" "0 \<le> k" "k \<le> 1"
  shows "0 \<le> (a + (b + (c + d))) / 4 * (1 - k * (1 / 2)) \<and>
         (a + (b + (c + d))) / 4 * (1 - k * (1 / 2)) \<le> 1"
proof -
  have avg: "0 \<le> (a + (b + (c + d))) / 4" "(a + (b + (c + d))) / 4 \<le> 1"
    using assms by simp_all
  have fac: "0 \<le> 1 - k * (1 / 2)" "1 - k * (1 / 2) \<le> 1"
    using assms by simp_all
  have "(a + (b + (c + d))) / 4 * (1 - k * (1 / 2)) \<le> 1 * 1"
    by (rule mult_mono) (use avg fac in simp_all)
  moreover have "0 \<le> (a + (b + (c + d))) / 4 * (1 - k * (1 / 2))"
    by (rule mult_nonneg_nonneg) (use avg fac in simp_all)
  ultimately show ?thesis by simp
qed

text \<open>What the synthesizer returns, stated once for all later properties.\<close>

lemma make_decision_returns:
  assumes "confidences_valid x e c l"
  shows "\<exists>r. make_decision current_year cid cd x e c l = Inr r"
proof -
  let ?k = "fr_risk_score (check_fraud_indicators current_year cd
              (cd_previous_claims_same_day cd) (cd_previous_claims_ytd cd) 50000)"
  let ?a = "dflt (ex_confidence_score x) (85 / 100)"
  let ?v = "(?a + (er_confidence_score e + (cr_confidence_score c + lr_confidence_score l))) / 4 *
            (1 - ?k * (1 / 2))"
  have "0 \<le> ?v \<and> ?v \<le> 1"
    by (rule blended_confidence_range)
       (use assms fraud_risk_range [of current_year cd] in \<open>simp_all add: confidences_valid_def\<close>)
  then have "0 \<le> round2 ?v \<and> round2 ?v \<le> 1"
    using round2_unit by blast
  then show ?thesis
    by (simp add: make_decision_def AdjudicationResult_def Let_def split: prod.splits)
qed

lemma make_decision_hard:
  assumes "hard_rejection e c l" and "make_decision current_year cid cd x e c l = Inr r"
  shows "ar_decision r = REJECTED \<and> ar_approved_amount r = 0"
proof -
  from assms(1) have h:
    "list_ex (\<lambda>r. r \<in> set hard_rejection_reasons)
       (er_rejection_reasons e @ cr_rejection_reasons c @ lr_rejection_reasons l) \<or>
     (''SERVICE_NOT_COVERED'' \<in> set (er_rejection_reasons e @ cr_rejection_reasons c @ lr_rejection_reasons l)
      \<and> length (cr_covered_items c) = 0)"
    unfolding hard_rejection_def merged_rejection_reasons_def list_ex_iff by simp
  from assms(2) show ?thesis
    unfolding make_decision_def AdjudicationResult_def Let_def
    using h by (auto simp add: round2_zero split: if_splits)
qed






lemma test_step_keeps_excluded:
  "x \<in> set (cs_excluded_items st) \<Longrightarrow> x \<in> set (cs_excluded_items (test_step amount obtained st t))"
  by (simp add: test_step_def)

lemma test_step_keeps_reasons:
  "x \<in> set (cs_rejection_reasons st) \<Longrightarrow> x \<in> set (cs_rejection_reasons (test_step amount obtained st t))"
  by (simp add: test_step_def add_reason_def)

lemma tests_loop_keeps_excluded:
  "x \<in> set (cs_excluded_items st) \<Longrightarrow>
   x \<in> set (cs_excluded_items (foldl (test_step amount obtained) st ts))"
  by (induction ts arbitrary: st) (simp_all add: test_step_keeps_excluded)

lemma tests_loop_keeps_reasons:
  "x \<in> set (cs_rejection_reasons st) \<Longrightarrow>
   x \<in> set (cs_rejection_reasons (foldl (test_step amount obtained) st ts))"
  by (induction ts arbitrary: st) (simp_all add: test_step_keeps_reasons)

lemma pre_auth_required_nonempty:
  "check_pre_authorization_required t amount \<Longrightarrow> t \<noteq> []"
  by (auto simp add: check_pre_authorization_required_def pre_auth_tests_def py_lower_def)

lemma test_step_excludes:
  assumes "check_pre_authorization_required t amount"
  shows "t @ '' - requires pre-authorization'' \<in> set (cs_excluded_items (test_step amount False st t)) \<and>
         ''PRE_AUTH_MISSING'' \<in> set (cs_rejection_reasons (test_step amount False st t)) \<and>
         cs_pre_auth_required (test_step amount False st t)"
  using assms pre_auth_required_nonempty [OF assms]
  by (simp add: test_step_def add_reason_def)

lemma tests_loop_excludes:
  assumes "t \<in> set ts" and "check_pre_authorization_required t amount"
  shows "t @ '' - requires pre-authorization''
           \<in> set (cs_excluded_items (foldl (test_step amount False) st ts)) \<and>
         ''PRE_AUTH_MISSING'' \<in> set (cs_rejection_reasons (foldl (test_step amount False) st ts))"
  using assms(1)
proof (induction ts arbitrary: st)
  case Nil
  then show ?case by simp
next
  case (Cons a ts)
  show ?case
  proof (cases "a = t")
    case True
    from test_step_excludes [OF assms(2), of st]
    show ?thesis
      unfolding True foldl_Cons
      using tests_loop_keeps_excluded tests_loop_keeps_reasons by blast
  next
    case False
    with Cons.prems have "t \<in> set ts" by simp
    from Cons.IH [OF this] show ?thesis by simp
  qed
qed

lemma pre_auth_required_iff:
  "check_pre_authorization_required t amount \<longleftrightarrow>
     ((py_in ''mri'' (py_lower t) \<or> py_in ''ct scan'' (py_lower t) \<or> py_in ''pet scan'' (py_lower t)) \<and>
      amount > 10000)"
  by (auto simp add: check_pre_authorization_required_def pre_auth_tests_def Let_def)


section \<open>The claims\<close>

subsection \<open>C1: bounds on the approved amount\<close>





subsection \<open>C2: hard rejections\<close>

text \<open>
  C2: when one of the six hard rejection codes is among the merged rejection reasons, or
  \<open>SERVICE_NOT_COVERED\<close> is present and no item is covered, every result of
  \<open>make_decision\<close> is \<open>REJECTED\<close> with approved amount 0, whatever the limit stage
  approved, whatever the fraud score and whatever items are excluded or covered; and a
  result is returned whenever the four stage confidences lie in \<open>[0, 1]\<close>.
\<close>

theorem C2:
  assumes "hard_rejection e c l"
  shows "(\<forall>r. make_decision current_year cid cd x e c l = Inr r \<longrightarrow>
              ar_decision r = REJECTED \<and> ar_approved_amount r = 0) \<and>
         (confidences_valid x e c l \<longrightarrow> (\<exists>r. make_decision current_year cid cd x e c l = Inr r))"
  using make_decision_hard [OF assms] make_decision_returns by blast

theorem C2_witness:
  "hard_rejection sample_eligibility rejecting_coverage
     (calculate_limits empty_policy 1500 (Some ''diagnostic'') None 0 0 None) \<and>
   map_sum id (\<lambda>r. (ar_decision r, ar_approved_amount r))
     (make_decision 2026 ''CLM_1'' sample_claim sample_extraction sample_eligibility rejecting_coverage
        (calculate_limits empty_policy 1500 (Some ''diagnostic'') None 0 0 None))
   = Inr (REJECTED, 0)"
proof -
  let ?l = "calculate_limits empty_policy 1500 (Some ''diagnostic'') None 0 0 None"
  have h: "hard_rejection sample_eligibility rejecting_coverage ?l"
    unfolding hard_rejection_def merged_rejection_reasons_def by code_simp
  have c: "confidences_valid sample_extraction sample_eligibility rejecting_coverage ?l"
    by code_simp
  from C2 [OF h, of 2026 "''CLM_1''" sample_claim sample_extraction] c
  obtain r where "make_decision 2026 ''CLM_1'' sample_claim sample_extraction sample_eligibility
      rejecting_coverage ?l = Inr r" "ar_decision r = REJECTED" "ar_approved_amount r = 0"
    by blast
  with h show ?thesis by simp
qed


subsection \<open>C3: missing documents\<close>

text \<open>
  C3: when the extraction result reports no prescription or no bill, the workflow enters
  no stage after extraction (no eligibility, coverage, limit or decision stage, hence no
  fraud scoring) and returns a result with decision \<open>REJECTED\<close>, the single rejection
  reason \<open>MISSING_DOCUMENTS\<close>, approved amount 0 and confidence 1.
\<close>

theorem C3:
  assumes "\<not> ex_has_prescription (extractor_reply e) \<or> \<not> ex_has_bill (extractor_reply e)"
  shows "fst (process e P claim) = [Extraction] \<and>
         (\<exists>r. snd (process e P claim) = Inr r \<and>
              ar_decision r = REJECTED \<and>
              ar_rejection_reasons r = [''MISSING_DOCUMENTS''] \<and>
              ar_approved_amount r = 0 \<and>
              ar_confidence_score r = 1 \<and>
              ar_eligibility_result r = None \<and> ar_coverage_result r = None \<and>
              ar_limit_result r = None \<and> ar_fraud_result r = None)"
  using assms
  by (auto simp add: process_def rejected_early_def AdjudicationResult_def Let_def)

theorem C3_witness:
  "\<not> ex_has_bill (extractor_reply (sample_env\<lparr>extractor_reply := sample_extraction\<lparr>ex_has_bill := False\<rparr>\<rparr>)) \<and>
   fst (process (sample_env\<lparr>extractor_reply := sample_extraction\<lparr>ex_has_bill := False\<rparr>\<rparr>)
          empty_policy sample_claim) = [Extraction] \<and>
   map_sum id ar_decision
     (snd (process (sample_env\<lparr>extractor_reply := sample_extraction\<lparr>ex_has_bill := False\<rparr>\<rparr>)
             empty_policy sample_claim)) = Inr REJECTED"
proof -
  let ?e = "sample_env\<lparr>extractor_reply := sample_extraction\<lparr>ex_has_bill := False\<rparr>\<rparr>"
  have h: "\<not> ex_has_prescription (extractor_reply ?e) \<or> \<not> ex_has_bill (extractor_reply ?e)"
    by simp
  from C3 [OF h, of empty_policy sample_claim] show ?thesis
    by auto
qed

subsection \<open>C4: the limit calculation\<close>





subsection \<open>C5: the fraud score\<close>

text \<open>
  C5: the risk score returned by \<open>check_fraud_indicators\<close> lies in \<open>[0, 1]\<close>, the flags
  that fired are pairwise distinct, and manual review is recommended exactly when the sum
  of the weights of the fired flags is at least 0.35 or at least three flags fired.
\<close>

theorem C5:
  "0 \<le> fr_risk_score (check_fraud_indicators current_year cd same_day ytd annual) \<and>
   fr_risk_score (check_fraud_indicators current_year cd same_day ytd annual) \<le> 1 \<and>
   distinct (fr_fraud_flags (check_fraud_indicators current_year cd same_day ytd annual)) \<and>
   fr_recommend_manual_review (check_fraud_indicators current_year cd same_day ytd annual) =
     (additive_score (fr_fraud_flags (check_fraud_indicators current_year cd same_day ytd annual)) \<ge> 35 / 100 \<or>
      length (fr_fraud_flags (check_fraud_indicators current_year cd same_day ytd annual)) \<ge> 3)"
proof -
  obtain names where f: "fired names (fraud_checks current_year cd same_day ytd annual)"
    using fired_fraud_checks by blast
  show ?thesis
    using f fraud_risk_range [of current_year cd same_day ytd annual]
    by (simp add: check_fraud_indicators_def Let_def fired_def)
qed

theorem C5_witness:
  "0 \<le> fr_risk_score (check_fraud_indicators 2026 sample_claim 3 0 50000) \<and>
   fr_risk_score (check_fraud_indicators 2026 sample_claim 3 0 50000) \<le> 1 \<and>
   distinct (fr_fraud_flags (check_fraud_indicators 2026 sample_claim 3 0 50000)) \<and>
   fr_recommend_manual_review (check_fraud_indicators 2026 sample_claim 3 0 50000) =
     (additive_score (fr_fraud_flags (check_fraud_indicators 2026 sample_claim 3 0 50000)) \<ge> 35 / 100 \<or>
      length (fr_fraud_flags (check_fraud_indicators 2026 sample_claim 3 0 50000)) \<ge> 3)"
  by (rule C5)


subsection \<open>C7: where amounts are rounded\<close>





subsection \<open>C8: running the workflow twice\<close>

text \<open>
  C8: the claim is that two runs of the workflow on the same claim and the same policy
  return the same result, also when the claim carries no \<open>claim_id\<close> or no
  \<open>member_join_date\<close>. Two runs are two environments. Without a \<open>claim_id\<close> the
  identifier is built from the clock and a fresh UUID, so two runs that differ only in the
  UUID return different identifiers; without a \<open>member_join_date\<close> the join date is taken
  to be 365 days before the day of the run, so the same claim (treatment on 2024-11-01) is
  rejected for its waiting period by a run on 2026-11-04 and approved by a run on
  2025-06-01.
\<close>

theorem C8_counterexample:
  "map_sum id ar_claim_id
     (snd (process sample_env empty_policy (sample_claim\<lparr>cd_claim_id := None\<rparr>)))
     = Inr ''CLM_20261104090507_3F2A9C1E'' \<and>
   map_sum id ar_claim_id
     (snd (process (sample_env\<lparr>uuid4 := ''0b1e6d52-7b4d-4e2a-9f3c-1a2b3c4d5e6f''\<rparr>) empty_policy
             (sample_claim\<lparr>cd_claim_id := None\<rparr>)))
     = Inr ''CLM_20261104090507_0B1E6D52'' \<and>
   map_sum id ar_decision
     (snd (process sample_env empty_policy (sample_claim\<lparr>cd_member_join_date := None\<rparr>)))
     = Inr REJECTED \<and>
   map_sum id ar_decision
     (snd (process (sample_env\<lparr>now_date := (2025, 6, 1)\<rparr>) empty_policy
             (sample_claim\<lparr>cd_member_join_date := None\<rparr>)))
     = Inr APPROVED"
  by code_simp

text \<open>
  C8 (amended): when the claim carries a non-empty \<open>claim_id\<close> and a non-empty
  \<open>member_join_date\<close>, two runs in the same calendar year, with the same iteration order
  of string sets and the same replies of the document extractor and of the limit-calculator
  agent, return the same trace and the same result, whatever the time of day and the UUID
  of each run.
\<close>

theorem C8_amended:
  assumes "cd_claim_id claim = Some i" and "i \<noteq> []"
    and "cd_member_join_date claim = Some j" and "j \<noteq> []"
    and "fst (now_date e') = fst (now_date e)"
    and "hash_rank e' = hash_rank e"
    and "extractor_reply e' = extractor_reply e"
    and "limit_agent_reply e' = limit_agent_reply e"
  shows "process e' P claim = process e P claim"
proof -
  have el: "check_eligibility_with_agent e' P claim (extractor_reply e) =
            check_eligibility_with_agent e P claim (extractor_reply e)"
    using assms(3,4) by (simp add: check_eligibility_with_agent_def Let_def)
  have cov: "validate_coverage_with_agent e' P claim (extractor_reply e) =
             validate_coverage_with_agent e P claim (extractor_reply e)"
    unfolding validate_coverage_with_agent_def py_list_set_def assms(6) by (rule refl)
  have lim: "\<And>c. calculate_limits_with_agent e' P claim (extractor_reply e) c =
                 calculate_limits_with_agent e P claim (extractor_reply e) c"
    unfolding calculate_limits_with_agent_def assms(8) by (rule refl)
  have cid: "(case cd_claim_id claim of
                None \<Rightarrow> generate_claim_id e'
              | Some i \<Rightarrow> if i \<noteq> [] then i else generate_claim_id e') =
             (case cd_claim_id claim of
                None \<Rightarrow> generate_claim_id e
              | Some i \<Rightarrow> if i \<noteq> [] then i else generate_claim_id e)"
    using assms(1,2) by simp
  show ?thesis
    unfolding process_def Let_def cid assms(5) assms(7) el cov lim by (rule refl)
qed

theorem C8_amended_witness:
  "cd_claim_id sample_claim = Some ''CLM_1'' \<and>
   cd_member_join_date sample_claim = Some ''2024-01-01'' \<and>
   process (sample_env\<lparr>now_date := (2026, 1, 2), now_hour := 23,
                        uuid4 := ''0b1e6d52-7b4d-4e2a-9f3c-1a2b3c4d5e6f''\<rparr>) empty_policy sample_claim
     = process sample_env empty_policy sample_claim"
proof -
  have a: "cd_claim_id sample_claim = Some ''CLM_1''" by (simp add: sample_claim_def)
  have b: "cd_member_join_date sample_claim = Some ''2024-01-01''" by (simp add: sample_claim_def)
  have n: "''CLM_1'' \<noteq> []" "''2024-01-01'' \<noteq> []" by simp_all
  let ?e' = "sample_env\<lparr>now_date := (2026, 1, 2), now_hour := 23,
                        uuid4 := ''0b1e6d52-7b4d-4e2a-9f3c-1a2b3c4d5e6f''\<rparr>"
  have y: "fst (now_date ?e') = fst (now_date sample_env)" by (simp add: sample_env_def)
  have h: "hash_rank ?e' = hash_rank sample_env" by simp
  have x: "extractor_reply ?e' = extractor_reply sample_env" by simp
  have l: "limit_agent_reply ?e' = limit_agent_reply sample_env" by simp
  from C8_amended [OF a n(1) b n(2) y h x l, of empty_policy] a b show ?thesis by simp
qed


subsection \<open>C9: pre-authorization in the workflow\<close>

text \<open>
  C9: the coverage stage of the workflow always reports pre-authorization as not
  obtained, and every test whose name contains \<open>mri\<close>, \<open>ct scan\<close> or \<open>pet scan\<close> on a
  claim above 10000 is among the excluded items, with \<open>PRE_AUTH_MISSING\<close> among the
  rejection reasons. This holds for every claim and every extraction result: no input of
  the wrapper lets a caller say that pre-authorization was obtained.
\<close>

theorem C9:
  "\<not> cr_pre_auth_obtained (validate_coverage_with_agent e P claim x) \<and>
   (\<forall>t \<in> set (xd_tests (ex_extracted_data x)).
      (py_in ''mri'' (py_lower t) \<or> py_in ''ct scan'' (py_lower t) \<or> py_in ''pet scan'' (py_lower t)) \<and>
      cd_claim_amount claim > 10000 \<longrightarrow>
      t @ '' - requires pre-authorization''
        \<in> set (cr_excluded_items (validate_coverage_with_agent e P claim x)) \<and>
      ''PRE_AUTH_MISSING'' \<in> set (cr_rejection_reasons (validate_coverage_with_agent e P claim x)))"
proof (intro conjI ballI impI)
  show "\<not> cr_pre_auth_obtained (validate_coverage_with_agent e P claim x)"
    by (simp add: validate_coverage_with_agent_def validate_coverage_def Let_def)
next
  fix t
  assume t: "t \<in> set (xd_tests (ex_extracted_data x))"
    and m: "(py_in ''mri'' (py_lower t) \<or> py_in ''ct scan'' (py_lower t) \<or> py_in ''pet scan'' (py_lower t)) \<and>
            cd_claim_amount claim > 10000"
  from m have r: "check_pre_authorization_required t (cd_claim_amount claim)"
    by (simp add: pre_auth_required_iff)
  note tests_loop_excludes [OF t r]
  then show "t @ '' - requires pre-authorization''
        \<in> set (cr_excluded_items (validate_coverage_with_agent e P claim x))"
    and "''PRE_AUTH_MISSING'' \<in> set (cr_rejection_reasons (validate_coverage_with_agent e P claim x))"
    by (simp_all add: validate_coverage_with_agent_def validate_coverage_def Let_def)
qed

theorem C9_witness:
  "''MRI Lumbar Spine'' \<in> set (xd_tests (ex_extracted_data mri_extraction)) \<and>
   py_in ''mri'' (py_lower ''MRI Lumbar Spine'') \<and>
   cd_claim_amount (sample_claim\<lparr>cd_claim_amount := 15000\<rparr>) > 10000 \<and>
   ''MRI Lumbar Spine - requires pre-authorization''
     \<in> set (cr_excluded_items (validate_coverage_with_agent sample_env empty_policy
              (sample_claim\<lparr>cd_claim_amount := 15000\<rparr>) mri_extraction)) \<and>
   ''PRE_AUTH_MISSING''
     \<in> set (cr_rejection_reasons (validate_coverage_with_agent sample_env empty_policy
              (sample_claim\<lparr>cd_claim_amount := 15000\<rparr>) mri_extraction))"
proof -
  have a: "''MRI Lumbar Spine'' \<in> set (xd_tests (ex_extracted_data mri_extraction))"
    by (simp add: mri_extraction_def)
  have b: "py_in ''mri'' (py_lower ''MRI Lumbar Spine'')"
    by code_simp
  have c: "cd_claim_amount (sample_claim\<lparr>cd_claim_amount := 15000\<rparr>) > 10000"
    by simp
  from C9 [of sample_env empty_policy "sample_claim\<lparr>cd_claim_amount := 15000\<rparr>" mri_extraction] a b c
  show ?thesis by auto
qed

subsection \<open>C10: co-pay and discount outside the consultation category\<close>



end
